theory Spec2Isabelle
  imports Complex_Main "HOL-Library.Product_Lexorder"
begin

section \<open>Funnel search over Matryoshka embeddings\<close>

text \<open>
  The notebook \<^verbatim>\<open>funnel_search_with_matryoshka.ipynb\<close> defines two functions:
  \<^verbatim>\<open>
  def calculate_score(row, query_emb=None, dims=768):
      emb = F.normalize(row["embedding"][:dims], dim=-1)
      return (emb @ query_emb).item()

  def funnel_search(df, query_emb, scales=[256, 512, 768], prune_ratio=0.5):
      for dims in scales:
          emb = torch.tensor(query_emb[:dims] / np.linalg.norm(query_emb[:dims]))
          scores = df.apply(
              functools.partial(calculate_score, query_emb=emb, dims=dims), axis=1)
          df["scores"] = scores
          df = df.sort_values(by="scores", ascending=False)
          df = df.head(int(prune_ratio * len(df)))
      return df
  \<close>
  They are embedded below, one HOL definition for each Python expression. The
  slicing, the control flow, the exceptions and the effect on the caller's frame are
  modelled as the code has them. The float arithmetic of numpy and torch and the sort
  of pandas are not fixed by the code: they are parameters of the model (\<open>floats\<close>
  and \<open>pandas\<close>), and a theorem assumes of them only what holds of every IEEE
  arithmetic, whatever its rounding, its overflow and the order of its sums.
\<close>

subsection \<open>Numbers, vectors and slices\<close>

text \<open>
  A float computed by the code: finite, an infinity or \<open>nan\<close>. The embeddings and
  the prune ratio, which the caller passes, are finite.
\<close>

datatype fl = Fin real | PInf | NInf | NaN

type_synonym vec = "real list"

fun is_fin :: "fl \<Rightarrow> bool" where
  "is_fin (Fin x) = True"
| "is_fin _ = False"

text \<open>
  \<^verbatim>\<open>xs[:n]\<close>: the first \<open>n\<close> elements, all of them when \<open>n\<close> exceeds the length, and
  all but the last \<open>-n\<close> when \<open>n\<close> is negative. Nothing is raised.
\<close>

definition py_slice :: "int \<Rightarrow> 'a list \<Rightarrow> 'a list" where
  "py_slice n xs = (if 0 \<le> n then take (nat n) xs else take (length xs - nat (- n)) xs)"

text \<open>\<^verbatim>\<open>int(x)\<close> on a float truncates towards zero.\<close>

definition py_int :: "real \<Rightarrow> int" where
  "py_int x = (if 0 \<le> x then \<lfloor>x\<rfloor> else \<lceil>x\<rceil>)"

text \<open>
  The arithmetic the code takes from numpy and torch:
  \<^item> \<open>np_norm\<close>: \<^verbatim>\<open>np.linalg.norm(v)\<close> on a float32 vector; it can overflow to
    an infinity and underflow to zero;
  \<^item> \<open>torch_norm\<close>: the 2-norm that \<^verbatim>\<open>F.normalize\<close> takes of its argument;
  \<^item> \<open>fdiv\<close>: the float32 quotient of a component by a norm;
  \<^item> \<open>fdot\<close>: \<^verbatim>\<open>(emb @ query_emb).item()\<close> on two vectors of the same size;
  \<^item> \<open>fmul\<close>: the float64 product \<^verbatim>\<open>prune_ratio * len(df)\<close>, a finite number:
    the model leaves out the prune ratios beyond \<open>1e292\<close>, where the product of the
    ratio and a length can overflow and \<open>int\<close> raises.
\<close>

record floats =
  np_norm :: "vec \<Rightarrow> fl"
  torch_norm :: "vec \<Rightarrow> fl"
  fdiv :: "real \<Rightarrow> fl \<Rightarrow> fl"
  fdot :: "fl list \<Rightarrow> fl list \<Rightarrow> fl"
  fmul :: "real \<Rightarrow> nat \<Rightarrow> real"

text \<open>
  What the theorems on scores assume of the float32 arithmetic. Each line holds of
  IEEE arithmetic in every rounding mode and for every order of summation:
  the norm of a zero vector is zero; \<open>0 / 0\<close> is \<open>nan\<close>; \<open>0 / d\<close> is zero for a
  positive \<open>d\<close>; a dot product with a \<open>nan\<close> among the components of its second
  vector is \<open>nan\<close>; the dot product of a zero vector with a vector of finite numbers
  is zero, and \<open>nan\<close> when that vector holds an infinity or a \<open>nan\<close> (\<open>0 * inf\<close> is
  \<open>nan\<close>).
\<close>

definition scores_ok :: "floats \<Rightarrow> bool" where
  "scores_ok N =
     ((\<forall>v. (\<forall>x\<in>set v. x = 0) \<longrightarrow> np_norm N v = Fin 0 \<and> torch_norm N v = Fin 0) \<and>
      fdiv N 0 (Fin 0) = NaN \<and>
      (\<forall>d. 0 < d \<longrightarrow> fdiv N 0 (Fin d) = Fin 0) \<and>
      (\<forall>a b. length a = length b \<and> NaN \<in> set b \<longrightarrow> fdot N a b = NaN) \<and>
      (\<forall>a b. length a = length b \<and> (\<forall>x\<in>set a. x = Fin 0) \<longrightarrow>
             fdot N a b = (if list_all is_fin b then Fin 0 else NaN)))"

text \<open>
  What the theorems on sizes assume of the float64 product: a product by \<open>1.0\<close> is
  exact; a product of a non-negative ratio is not negative; and, the rounding being
  monotone and a length below \<open>2^53\<close> being a float64, the product of a ratio of
  at most 1 by such a length is at most that length.
\<close>

definition mul_ok :: "floats \<Rightarrow> bool" where
  "mul_ok N =
     ((\<forall>r. fmul N r 1 = r) \<and>
      (\<forall>r n. 0 \<le> r \<longrightarrow> 0 \<le> fmul N r n) \<and>
      (\<forall>r n. r \<le> 1 \<and> n \<le> 2 ^ 53 \<longrightarrow> fmul N r n \<le> real n))"

text \<open>
  \<^verbatim>\<open>F.normalize(v, dim=-1)\<close> is \<^verbatim>\<open>v / v.norm(2, -1, keepdim=True).clamp_min(eps)\<close>
  with the default \<open>eps = 1e-12\<close>: it never divides by zero. The theorems use of
  \<open>eps\<close> only that it is positive.
\<close>

definition eps :: real where
  "eps = 1 / 10 ^ 12"

fun clamp_min :: "fl \<Rightarrow> real \<Rightarrow> fl" where
  "clamp_min (Fin n) e = Fin (max n e)"
| "clamp_min PInf e = PInf"
| "clamp_min NInf e = Fin e"
| "clamp_min NaN e = NaN"

definition F_normalize :: "floats \<Rightarrow> vec \<Rightarrow> fl list" where
  "F_normalize N v = map (\<lambda>x. fdiv N x (clamp_min (torch_norm N v) eps)) v"

text \<open>
  \<^verbatim>\<open>v / np.linalg.norm(v)\<close>: numpy divides every component by the norm and does not
  raise when the norm is zero.
\<close>

definition unit_query :: "floats \<Rightarrow> vec \<Rightarrow> fl list" where
  "unit_query N v = map (\<lambda>x. fdiv N x (np_norm N v)) v"

subsection \<open>Errors\<close>

text \<open>
  The two exceptions the code can raise: torch's \<open>RuntimeError\<close> when \<^verbatim>\<open>@\<close> gets
  vectors of different sizes, and pandas' \<open>ValueError\<close> (see \<open>df_apply\<close>).
\<close>

datatype error = RuntimeError | ValueError

text \<open>\<^verbatim>\<open>(emb @ query_emb).item()\<close> on two one-dimensional tensors.\<close>

definition matmul :: "floats \<Rightarrow> fl list \<Rightarrow> fl list \<Rightarrow> error + fl" where
  "matmul N a b = (if length a = length b then Inr (fdot N a b) else Inl RuntimeError)"

subsection \<open>Data frames\<close>

text \<open>
  A row of the frame built by \<^verbatim>\<open>hits_to_dataframe\<close>: the title, the embedding and,
  once \<^verbatim>\<open>df["scores"]\<close> has been assigned, the score.
\<close>

record row =
  title :: string
  embedding :: vec
  scores :: "fl option"

type_synonym frame = "row list"

text \<open>
  What the code takes from pandas and does not fix itself:
  \<^item> \<open>argsort\<close>: the order \<^verbatim>\<open>sort_values(by="scores", ascending=False)\<close> puts the
    rows in, as the positions of the rows of its input. The code passes no \<open>kind\<close>,
    and the default algorithm of pandas is not a stable one.
  \<^item> \<open>apply_empty\<close>: what \<^verbatim>\<open>df.apply(f, axis=1)\<close> followed by the assignment of its
    result to a column does on a frame without rows, where \<open>apply\<close> does not return a
    column of scores: the exception raised, if any.
\<close>

record pandas =
  argsort :: "fl list \<Rightarrow> nat list"
  apply_empty :: "error option"

text \<open>A missing value sorts as \<open>nan\<close>.\<close>

definition score_key :: "row \<Rightarrow> fl" where
  "score_key r = (case scores r of None \<Rightarrow> NaN | Some s \<Rightarrow> s)"

text \<open>
  Descending order with \<open>nan\<close> last (\<open>na_position='last'\<close>): \<open>fl_ge a b\<close> holds when
  \<open>a\<close> may stand before \<open>b\<close>.
\<close>

fun fl_ge :: "fl \<Rightarrow> fl \<Rightarrow> bool" where
  "fl_ge a NaN = True"
| "fl_ge NaN b = False"
| "fl_ge PInf b = True"
| "fl_ge a NInf = True"
| "fl_ge (Fin x) (Fin y) = (y \<le> x)"
| "fl_ge a b = False"

text \<open>
  The contract of \<open>argsort\<close>: a permutation of the positions that puts the keys in
  descending order.
\<close>

definition argsort_ok :: "(fl list \<Rightarrow> nat list) \<Rightarrow> bool" where
  "argsort_ok A =
     (\<forall>ks. distinct (A ks) \<and> set (A ks) = {0..<length ks} \<and>
           sorted_wrt (\<lambda>i j. fl_ge (ks ! i) (ks ! j)) (A ks))"

definition sort_values :: "pandas \<Rightarrow> frame \<Rightarrow> frame" where
  "sort_values L df = map (\<lambda>i. df ! i) (argsort L (map score_key df))"

text \<open>\<^verbatim>\<open>df.head(n)\<close> is \<^verbatim>\<open>df.iloc[:n]\<close>.\<close>

definition head :: "int \<Rightarrow> frame \<Rightarrow> frame" where
  "head n df = py_slice n df"

text \<open>
  \<^verbatim>\<open>df.apply(f, axis=1)\<close> calls \<open>f\<close> on the rows in order; the first exception ends
  the call.
\<close>

fun collect :: "(row \<Rightarrow> error + fl) \<Rightarrow> frame \<Rightarrow> error + fl list" where
  "collect f [] = Inr []"
| "collect f (r # rs) =
     (case f r of
        Inl e \<Rightarrow> Inl e
      | Inr s \<Rightarrow> (case collect f rs of Inl e \<Rightarrow> Inl e | Inr ss \<Rightarrow> Inr (s # ss)))"

definition df_apply :: "pandas \<Rightarrow> (row \<Rightarrow> error + fl) \<Rightarrow> frame \<Rightarrow> error + fl list" where
  "df_apply L f df =
     (if df = [] then (case apply_empty L of Some e \<Rightarrow> Inl e | None \<Rightarrow> Inr [])
      else collect f df)"

text \<open>\<^verbatim>\<open>df["scores"] = scores\<close>.\<close>

definition set_scores :: "frame \<Rightarrow> fl list \<Rightarrow> frame" where
  "set_scores df ss = map2 (\<lambda>r s. r\<lparr>scores := Some s\<rparr>) df ss"

subsection \<open>The two functions\<close>

definition calculate_score :: "floats \<Rightarrow> row \<Rightarrow> fl list \<Rightarrow> int \<Rightarrow> error + fl" where
  "calculate_score N r query_emb dims =
     (let emb = F_normalize N (py_slice dims (embedding r))
      in matmul N emb query_emb)"

text \<open>
  One pass of the loop body up to the assignment of the column: the frame \<open>df\<close> with
  its new scores, or the exception of the scoring, which leaves \<open>df\<close> as it was.
\<close>

definition rescore :: "pandas \<Rightarrow> floats \<Rightarrow> frame \<Rightarrow> vec \<Rightarrow> int \<Rightarrow> error + frame" where
  "rescore L N df query_emb dims =
     (let emb = unit_query N (py_slice dims query_emb)
      in case df_apply L (\<lambda>r. calculate_score N r emb dims) df of
           Inl e \<Rightarrow> Inl e
         | Inr ss \<Rightarrow> Inr (set_scores df ss))"

text \<open>The rest of the loop body: re-rank, then prune. Both make a new frame.\<close>

definition rerank_prune :: "pandas \<Rightarrow> floats \<Rightarrow> frame \<Rightarrow> real \<Rightarrow> frame" where
  "rerank_prune L N df prune_ratio =
     (let df' = sort_values L df
      in head (py_int (fmul N prune_ratio (length df'))) df')"

definition funnel_round ::
  "pandas \<Rightarrow> floats \<Rightarrow> frame \<Rightarrow> vec \<Rightarrow> int \<Rightarrow> real \<Rightarrow> error + frame" where
  "funnel_round L N df query_emb dims prune_ratio =
     (case rescore L N df query_emb dims of
        Inl e \<Rightarrow> Inl e
      | Inr df1 \<Rightarrow> Inr (rerank_prune L N df1 prune_ratio))"

text \<open>The loop over \<open>scales\<close>, on the value of the local variable \<open>df\<close>.\<close>

fun funnel_loop ::
  "pandas \<Rightarrow> floats \<Rightarrow> frame \<Rightarrow> vec \<Rightarrow> int list \<Rightarrow> real \<Rightarrow> error + frame" where
  "funnel_loop L N df query_emb [] prune_ratio = Inr df"
| "funnel_loop L N df query_emb (dims # scales) prune_ratio =
     (case funnel_round L N df query_emb dims prune_ratio of
        Inl e \<Rightarrow> Inl e
      | Inr df' \<Rightarrow> funnel_loop L N df' query_emb scales prune_ratio)"

text \<open>
  \<open>funnel_search\<close> returns a pair: what the call returns or raises, and the caller's
  frame after the call. In the first pass the local \<open>df\<close> is the caller's object, and
  \<^verbatim>\<open>df["scores"] = scores\<close> writes into it; \<open>sort_values\<close> then binds \<open>df\<close> to a new
  frame, so the later passes write into frames the caller does not hold. With no
  scales the caller's frame itself is returned.
\<close>

definition funnel_search ::
  "pandas \<Rightarrow> floats \<Rightarrow> frame \<Rightarrow> vec \<Rightarrow> int list \<Rightarrow> real \<Rightarrow> (error + frame) \<times> frame" where
  "funnel_search L N df query_emb scales prune_ratio =
     (case scales of
        [] \<Rightarrow> (Inr df, df)
      | dims # rest \<Rightarrow>
          (case rescore L N df query_emb dims of
             Inl e \<Rightarrow> (Inl e, df)
           | Inr df1 \<Rightarrow>
               (funnel_loop L N (rerank_prune L N df1 prune_ratio) query_emb rest prune_ratio,
                df1)))"

subsection \<open>The size of the pruned frame\<close>

text \<open>
  The number of rows of \<^verbatim>\<open>df.head(int(prune_ratio * len(df)))\<close> for a frame of \<open>n\<close>
  rows: \<open>head\<close> gives at most the rows there are, and a negative count drops rows
  from the end.
\<close>

definition pruned_size :: "floats \<Rightarrow> real \<Rightarrow> nat \<Rightarrow> nat" where
  "pruned_size N prune_ratio n =
     (let k = py_int (fmul N prune_ratio n)
      in if 0 \<le> k then min (nat k) n else n - nat (- k))"

subsection \<open>An arithmetic and a sort to run the functions with\<close>

text \<open>The Euclidean norm of a vector of real numbers.\<close>

definition linalg_norm :: "vec \<Rightarrow> real" where
  "linalg_norm v = sqrt (sum_list (map (\<lambda>x. x * x) v))"

text \<open>
  The arithmetic of the extended real numbers, with no rounding, overflow or
  underflow: \<open>x / 0\<close> is an infinity or, for \<open>0 / 0\<close>, \<open>nan\<close>; \<open>0 * inf\<close> and
  \<open>inf - inf\<close> are \<open>nan\<close>. It is not the arithmetic of the code: the float64
  product of 0.6 and 5 is 3.0, while the exact product of the float64 nearest to 0.6
  and 5 is below 3. It is one arithmetic that meets \<open>scores_ok\<close> and \<open>mul_ok\<close>;
  the theorems hold for every such arithmetic, and this one evaluates the functions
  on the frames below, where the floats of the code give the same row counts and the
  same order of scores.
\<close>

fun exact_div :: "real \<Rightarrow> fl \<Rightarrow> fl" where
  "exact_div x (Fin d) =
     (if d = 0 then (if x = 0 then NaN else if 0 < x then PInf else NInf) else Fin (x / d))"
| "exact_div x PInf = Fin 0"
| "exact_div x NInf = Fin 0"
| "exact_div x NaN = NaN"

fun fl_mul :: "fl \<Rightarrow> fl \<Rightarrow> fl" where
  "fl_mul (Fin x) (Fin y) = Fin (x * y)"
| "fl_mul NaN b = NaN"
| "fl_mul a NaN = NaN"
| "fl_mul (Fin x) PInf = (if x = 0 then NaN else if 0 < x then PInf else NInf)"
| "fl_mul (Fin x) NInf = (if x = 0 then NaN else if 0 < x then NInf else PInf)"
| "fl_mul PInf (Fin y) = (if y = 0 then NaN else if 0 < y then PInf else NInf)"
| "fl_mul NInf (Fin y) = (if y = 0 then NaN else if 0 < y then NInf else PInf)"
| "fl_mul PInf PInf = PInf"
| "fl_mul NInf NInf = PInf"
| "fl_mul PInf NInf = NInf"
| "fl_mul NInf PInf = NInf"

fun fl_add :: "fl \<Rightarrow> fl \<Rightarrow> fl" where
  "fl_add (Fin x) (Fin y) = Fin (x + y)"
| "fl_add NaN b = NaN"
| "fl_add a NaN = NaN"
| "fl_add PInf NInf = NaN"
| "fl_add NInf PInf = NaN"
| "fl_add PInf b = PInf"
| "fl_add a PInf = PInf"
| "fl_add NInf b = NInf"
| "fl_add a NInf = NInf"

fun exact_dot :: "fl list \<Rightarrow> fl list \<Rightarrow> fl" where
  "exact_dot (x # xs) (y # ys) = fl_add (fl_mul x y) (exact_dot xs ys)"
| "exact_dot _ _ = Fin 0"

definition exact_floats :: floats where
  "exact_floats =
     \<lparr>np_norm = (\<lambda>v. Fin (linalg_norm v)), torch_norm = (\<lambda>v. Fin (linalg_norm v)),
      fdiv = exact_div, fdot = exact_dot, fmul = (\<lambda>r n. r * real n)\<rparr>"

text \<open>
  One sort that meets \<open>argsort_ok\<close>: a stable insertion sort on the rank of the keys
  in the descending order, as \<open>sort_values\<close> does with \<open>kind="stable"\<close>.
\<close>

fun desc_key :: "fl \<Rightarrow> nat \<times> real" where
  "desc_key PInf = (0, 0)"
| "desc_key (Fin x) = (1, - x)"
| "desc_key NInf = (2, 0)"
| "desc_key NaN = (3, 0)"

definition stable_argsort :: "fl list \<Rightarrow> nat list" where
  "stable_argsort ks = sort_key (\<lambda>i. desc_key (ks ! i)) [0..<length ks]"

definition pandas_stable :: pandas where
  "pandas_stable = \<lparr>argsort = stable_argsort, apply_empty = Some ValueError\<rparr>"

text \<open>Frames to run the functions on.\<close>

definition ex_a :: row where
  "ex_a = \<lparr>title = ''a'', embedding = [3, 4], scores = None\<rparr>"

definition ex_b :: row where
  "ex_b = \<lparr>title = ''b'', embedding = [4, 3], scores = None\<rparr>"

definition ex_c :: row where
  "ex_c = \<lparr>title = ''c'', embedding = [-3, 4], scores = None\<rparr>"

definition ex_d :: row where
  "ex_d = \<lparr>title = ''d'', embedding = [-4, -3], scores = None\<rparr>"

definition ex_frame :: frame where
  "ex_frame = [ex_c, ex_a, ex_d, ex_b]"

definition ex_frame2 :: frame where
  "ex_frame2 = [ex_b, ex_b, ex_a, ex_d]"


definition ex_query :: vec where
  "ex_query = [3, 4]"

text \<open>A candidate whose first two components are zero.\<close>

definition ex_zero :: row where
  "ex_zero = \<lparr>title = ''z'', embedding = [0, 0, 5], scores = None\<rparr>"


text \<open>Embeddings of length 768.\<close>

definition big_a :: row where
  "big_a = \<lparr>title = ''a'', embedding = 1 # replicate 767 0, scores = None\<rparr>"

definition big_b :: row where
  "big_b = \<lparr>title = ''b'', embedding = (- 1) # replicate 767 0, scores = None\<rparr>"

definition big_query :: vec where
  "big_query = 1 # replicate 767 0"

subsection \<open>The ranking as the specification words it\<close>








section \<open>Properties\<close>

subsection \<open>Norms\<close>

lemma sqrt_25: "sqrt 25 = 5"
  using real_sqrt_abs2[of 5] by simp

lemma linalg_norm_1: "linalg_norm [x] = \<bar>x\<bar>"
  by (simp add: linalg_norm_def)

lemma linalg_norm_2: "linalg_norm [x, y] = sqrt (x * x + y * y)"
  by (simp add: linalg_norm_def)

lemma linalg_norm_x0: "linalg_norm [x, 0] = \<bar>x\<bar>"
  by (simp add: linalg_norm_def)

lemma linalg_norm_one_hot: "linalg_norm (x # replicate n 0) = \<bar>x\<bar>"
  by (simp add: linalg_norm_def sum_list_replicate)

lemma linalg_norm_zeros: "\<forall>x\<in>set v. x = 0 \<Longrightarrow> linalg_norm v = 0"
  unfolding linalg_norm_def by (induction v) auto

lemma ex_norms:
  "linalg_norm [3, 4] = 5" "linalg_norm [4, 3] = 5"
  "linalg_norm [- 3, 4] = 5" "linalg_norm [- 4, - 3] = 5"
  by (simp_all add: linalg_norm_2 sqrt_25)

lemma eps_pos: "0 < eps"
  by (simp add: eps_def)

subsection \<open>The arithmetic without rounding meets the contracts\<close>

lemma fl_add_NaN_right: "fl_add a NaN = NaN"
  by (cases a) simp_all

lemma fl_mul_NaN_right: "fl_mul a NaN = NaN"
  by (cases a) simp_all

lemma exact_dot_nan:
  "length a = length b \<Longrightarrow> NaN \<in> set b \<Longrightarrow> exact_dot a b = NaN"
proof (induction a b rule: list_induct2)
  case Nil
  then show ?case by simp
next
  case (Cons x xs y ys)
  show ?case
  proof (cases "y = NaN")
    case True
    then show ?thesis by (simp add: fl_mul_NaN_right)
  next
    case False
    then have "exact_dot xs ys = NaN" using Cons by simp
    then show ?thesis by (simp add: fl_add_NaN_right)
  qed
qed

lemma exact_dot_zeros:
  "length a = length b \<Longrightarrow> \<forall>x\<in>set a. x = Fin 0 \<Longrightarrow>
   exact_dot a b = (if list_all is_fin b then Fin 0 else NaN)"
proof (induction a b rule: list_induct2)
  case Nil
  then show ?case by simp
next
  case (Cons x xs y ys)
  have x: "x = Fin 0" using Cons.prems by simp
  have r: "exact_dot xs ys = (if list_all is_fin ys then Fin 0 else NaN)"
    using Cons by simp
  show ?case by (cases y) (simp_all add: x r)
qed

lemma exact_scores_ok: "scores_ok exact_floats"
  unfolding scores_ok_def exact_floats_def
  by (auto simp: linalg_norm_zeros exact_dot_nan exact_dot_zeros)

lemma exact_mul_ok: "mul_ok exact_floats"
proof -
  have "r * real n \<le> real n" if "r \<le> 1" for r :: real and n :: nat
    using mult_right_mono[of r 1 "real n"] that by simp
  then show ?thesis
    unfolding mul_ok_def exact_floats_def by simp
qed

subsection \<open>Sorting and slicing\<close>

lemma argsort_length: "argsort_ok A \<Longrightarrow> length (A ks) = length ks"
proof -
  assume a: "argsort_ok A"
  then have d: "distinct (A ks)" and s: "set (A ks) = {0..<length ks}"
    unfolding argsort_ok_def by blast+
  have "length (A ks) = card (set (A ks))" using d by (simp add: distinct_card)
  then show ?thesis using s by simp
qed

lemma length_sort_values: "argsort_ok (argsort L) \<Longrightarrow> length (sort_values L df) = length df"
  unfolding sort_values_def by (simp add: argsort_length)

lemma set_sort_values: "argsort_ok (argsort L) \<Longrightarrow> set (sort_values L df) = set df"
proof -
  assume a: "argsort_ok (argsort L)"
  then have s: "set (argsort L (map score_key df)) = {0..<length df}"
    unfolding argsort_ok_def by (metis length_map)
  have "set (sort_values L df) = (\<lambda>i. df ! i) ` {0..<length df}"
    unfolding sort_values_def using s by simp
  also have "\<dots> = set df"
    by (metis list.set_map map_nth set_upt)
  finally show ?thesis .
qed


lemma length_py_slice: "length (py_slice n xs) \<le> length xs"
  unfolding py_slice_def by simp

lemma length_py_slice_eq:
  "length (py_slice n xs) = (if 0 \<le> n then min (nat n) (length xs) else length xs - nat (- n))"
  by (simp add: py_slice_def min.commute)

lemma set_py_slice: "set (py_slice n xs) \<subseteq> set xs"
  unfolding py_slice_def by (auto dest: in_set_takeD)


lemma length_head: "length (head n df) \<le> length df"
  by (simp add: head_def length_py_slice)

lemma set_head: "set (head n df) \<subseteq> set df"
  by (simp add: head_def set_py_slice)

lemma desc_key_le: "desc_key a \<le> desc_key b \<Longrightarrow> fl_ge a b"
  by (cases a; cases b) simp_all

lemma stable_argsort_ok: "argsort_ok stable_argsort"
  unfolding argsort_ok_def
proof (intro allI conjI)
  fix ks :: "fl list"
  let ?key = "\<lambda>i. desc_key (ks ! i)"
  show "distinct (stable_argsort ks)"
    unfolding stable_argsort_def by simp
  show "set (stable_argsort ks) = {0..<length ks}"
    unfolding stable_argsort_def by simp
  have "sorted (map ?key (sort_key ?key [0..<length ks]))" by (rule sorted_sort_key)
  then have s1: "sorted_wrt (\<lambda>i j. ?key i \<le> ?key j) (sort_key ?key [0..<length ks])"
    by (simp add: sorted_map)
  show "sorted_wrt (\<lambda>i j. fl_ge (ks ! i) (ks ! j)) (stable_argsort ks)"
    unfolding stable_argsort_def
    by (rule sorted_wrt_mono_rel[OF _ s1]) (rule desc_key_le)
qed

lemma pandas_stable_ok: "argsort_ok (argsort pandas_stable)"
  by (simp add: pandas_stable_def stable_argsort_ok)

subsection \<open>Scoring the rows of a frame\<close>

lemma collect_length: "collect f df = Inr ss \<Longrightarrow> length ss = length df"
  by (induction df arbitrary: ss) (auto split: sum.splits)

lemma collect_nth: "collect f df = Inr ss \<Longrightarrow> i < length df \<Longrightarrow> f (df ! i) = Inr (ss ! i)"
proof (induction df arbitrary: ss i)
  case Nil
  then show ?case by simp
next
  case (Cons r rs)
  then show ?case by (cases i) (auto split: sum.splits)
qed


lemma df_apply_length: "df_apply L f df = Inr ss \<Longrightarrow> length ss = length df"
  by (auto simp: df_apply_def collect_length split: if_splits option.splits)

lemma df_apply_nth:
  "df_apply L f df = Inr ss \<Longrightarrow> i < length df \<Longrightarrow> f (df ! i) = Inr (ss ! i)"
  by (auto simp: df_apply_def collect_nth split: if_splits option.splits)

lemma rescore_length: "rescore L N df q dims = Inr df1 \<Longrightarrow> length df1 = length df"
  by (auto simp: rescore_def set_scores_def Let_def df_apply_length split: sum.splits)

lemma rescore_nth:
  assumes "rescore L N df q dims = Inr df1" and "i < length df"
  shows "\<exists>s. calculate_score N (df ! i) (unit_query N (py_slice dims q)) dims = Inr s
             \<and> df1 ! i = (df ! i)\<lparr>scores := Some s\<rparr>"
proof -
  from assms(1) obtain ss where
    a: "df_apply L (\<lambda>r. calculate_score N r (unit_query N (py_slice dims q)) dims) df = Inr ss"
    and d: "df1 = set_scores df ss"
    by (auto simp: rescore_def Let_def split: sum.splits)
  have l: "length ss = length df" using a by (rule df_apply_length)
  have "calculate_score N (df ! i) (unit_query N (py_slice dims q)) dims = Inr (ss ! i)"
    using df_apply_nth[OF a assms(2)] .
  moreover have "df1 ! i = (df ! i)\<lparr>scores := Some (ss ! i)\<rparr>"
    using d l assms(2) by (simp add: set_scores_def)
  ultimately show ?thesis by blast
qed

lemma rescore_row:
  assumes "rescore L N df q dims = Inr df1" and "x \<in> set df1"
  shows "\<exists>y\<in>set df. \<exists>s. calculate_score N y (unit_query N (py_slice dims q)) dims = Inr s
             \<and> x = y\<lparr>scores := Some s\<rparr>"
proof -
  from assms(2) obtain i where i: "i < length df1" and x: "x = df1 ! i"
    by (auto simp: in_set_conv_nth)
  have i': "i < length df" using i rescore_length[OF assms(1)] by simp
  from rescore_nth[OF assms(1) i'] x i' show ?thesis
    by (metis nth_mem)
qed

lemma rescore_embedding:
  "rescore L N df q dims = Inr df1 \<Longrightarrow> map embedding df1 = map embedding df"
  by (rule nth_equalityI) (auto simp: rescore_length dest: rescore_nth)

lemma rescore_title:
  "rescore L N df q dims = Inr df1 \<Longrightarrow> map title df1 = map title df"
  by (rule nth_equalityI) (auto simp: rescore_length dest: rescore_nth)

subsection \<open>The score of one row\<close>

lemma length_F_normalize: "length (F_normalize N v) = length v"
  by (simp add: F_normalize_def)

lemma length_unit_query: "length (unit_query N v) = length v"
  by (simp add: unit_query_def)

lemma F_normalize_zeros:
  assumes "scores_ok N" and "\<forall>x\<in>set v. x = 0"
  shows "F_normalize N v = map (\<lambda>x. Fin 0) v"
proof -
  have n: "torch_norm N v = Fin 0" using assms unfolding scores_ok_def by blast
  have d: "fdiv N 0 (Fin eps) = Fin 0" using assms(1) eps_pos unfolding scores_ok_def by blast
  have m: "max 0 eps = eps" using eps_pos by simp
  show ?thesis
    unfolding F_normalize_def
    by (rule map_cong) (use assms(2) n d m in auto)
qed

lemma unit_query_zeros:
  assumes "scores_ok N" and "\<forall>x\<in>set v. x = 0"
  shows "unit_query N v = map (\<lambda>x. NaN) v"
proof -
  have n: "np_norm N v = Fin 0" using assms unfolding scores_ok_def by blast
  have d: "fdiv N 0 (Fin 0) = NaN" using assms(1) unfolding scores_ok_def by blast
  show ?thesis
    unfolding unit_query_def
    by (rule map_cong) (use assms(2) n d in auto)
qed

lemma fdot_nan:
  "scores_ok N \<Longrightarrow> length a = length b \<Longrightarrow> NaN \<in> set b \<Longrightarrow> fdot N a b = NaN"
  unfolding scores_ok_def by blast

lemma fdot_zeros:
  "scores_ok N \<Longrightarrow> length a = length b \<Longrightarrow> \<forall>x\<in>set a. x = Fin 0 \<Longrightarrow>
   fdot N a b = (if list_all is_fin b then Fin 0 else NaN)"
  unfolding scores_ok_def by blast

lemma calculate_score_Inl:
  "calculate_score N r qe dims = Inl e \<Longrightarrow>
   e = RuntimeError \<and> length (py_slice dims (embedding r)) \<noteq> length qe"
  by (auto simp: calculate_score_def matmul_def length_F_normalize split: if_splits)

lemma calculate_score_zero:
  assumes "scores_ok N" and "\<forall>x\<in>set (py_slice dims (embedding r)). x = 0"
  shows "calculate_score N r qe dims =
           (if length qe \<noteq> length (py_slice dims (embedding r)) then Inl RuntimeError
            else if list_all is_fin qe then Inr (Fin 0)
            else Inr NaN)"
proof (cases "length qe = length (py_slice dims (embedding r))")
  case False
  then show ?thesis
    by (auto simp: calculate_score_def matmul_def length_F_normalize)
next
  case True
  let ?z = "map (\<lambda>x. Fin 0) (py_slice dims (embedding r))"
  have f: "F_normalize N (py_slice dims (embedding r)) = ?z"
    using F_normalize_zeros[OF assms] .
  have "fdot N ?z qe = (if list_all is_fin qe then Fin 0 else NaN)"
    using True by (intro fdot_zeros[OF assms(1)]) simp_all
  then show ?thesis using True by (simp add: calculate_score_def matmul_def f)
qed


subsection \<open>When the scoring returns\<close>

lemma collect_cong: "(\<And>x. x \<in> set df \<Longrightarrow> f x = g x) \<Longrightarrow> collect f df = collect g df"
proof (induction df)
  case Nil
  then show ?case by simp
next
  case (Cons a df)
  have "f a = g a" using Cons.prems by simp
  moreover have "collect f df = collect g df" using Cons.IH Cons.prems by simp
  ultimately show ?case by (simp split: sum.splits)
qed

lemma collect_total: "(\<And>x. x \<in> set df \<Longrightarrow> \<exists>s. f x = Inr s) \<Longrightarrow> \<exists>ss. collect f df = Inr ss"
proof (induction df)
  case Nil
  then show ?case by simp
next
  case (Cons a df)
  from Cons.prems[of a] obtain s where "f a = Inr s" by auto
  moreover from Cons.IH Cons.prems obtain ss where "collect f df = Inr ss" by auto
  ultimately show ?case by simp
qed



lemma collect_Inl: "collect f df = Inl e \<Longrightarrow> \<exists>x\<in>set df. f x = Inl e"
  by (induction df) (auto split: sum.splits)

lemma rescore_scores:
  assumes "df_apply L (\<lambda>r. calculate_score N r (unit_query N (py_slice dims q)) dims) df = Inr ss"
  shows "rescore L N df q dims = Inr (set_scores df ss) \<and> map scores (set_scores df ss) = map Some ss"
proof -
  have l: "length ss = length df" using assms by (rule df_apply_length)
  have "map scores (set_scores df ss) = map Some ss"
    by (rule nth_equalityI) (simp_all add: set_scores_def l)
  then show ?thesis using assms by (simp add: rescore_def)
qed

lemma length_py_slice_same:
  "length xs = length ys \<Longrightarrow> length (py_slice d xs) = length (py_slice d ys)"
  by (simp add: py_slice_def)

lemma rescore_total:
  assumes "\<forall>x\<in>set df. length (embedding x) = length q" and "df \<noteq> []"
  shows "\<exists>df1. rescore L N df q d = Inr df1"
proof -
  have "\<exists>ss. collect (\<lambda>r. calculate_score N r (unit_query N (py_slice d q)) d) df = Inr ss"
  proof (rule collect_total)
    fix x assume "x \<in> set df"
    then have "length (embedding x) = length q" using assms(1) by blast
    then have "length (py_slice d (embedding x)) = length (py_slice d q)"
      by (rule length_py_slice_same)
    then show "\<exists>s. calculate_score N x (unit_query N (py_slice d q)) d = Inr s"
      by (simp add: calculate_score_def matmul_def length_F_normalize length_unit_query)
  qed
  then show ?thesis using assms(2) by (auto simp: rescore_def df_apply_def)
qed

lemma rescore_preserves_length:
  assumes "\<forall>x\<in>set df. length (embedding x) = n" and "rescore L N df q d = Inr df1"
  shows "\<forall>x\<in>set df1. length (embedding x) = n"
proof
  fix x assume "x \<in> set df1"
  from rescore_row[OF assms(2) this] obtain y s where "y \<in> set df" and "x = y\<lparr>scores := Some s\<rparr>"
    by blast
  then show "length (embedding x) = n" using assms(1) by simp
qed



subsection \<open>Scales beyond the length of the embeddings\<close>

lemma py_slice_clip: "py_slice d xs = py_slice (min d (int (length xs))) xs"
  by (auto simp: py_slice_def min_def)

lemma calculate_score_clip:
  "length (embedding x) = n \<Longrightarrow> calculate_score N x qe d = calculate_score N x qe (min d (int n))"
  using py_slice_clip[of d "embedding x"] by (simp add: calculate_score_def)

lemma rescore_clip:
  assumes "\<forall>x\<in>set df. length (embedding x) = length q"
  shows "rescore L N df q d = rescore L N df q (min d (int (length q)))"
proof -
  let ?d' = "min d (int (length q))"
  have e: "py_slice d q = py_slice ?d' q" by (rule py_slice_clip)
  have "collect (\<lambda>r. calculate_score N r (unit_query N (py_slice d q)) d) df =
        collect (\<lambda>r. calculate_score N r (unit_query N (py_slice ?d' q)) ?d') df"
  proof (rule collect_cong)
    fix x assume "x \<in> set df"
    then have "length (embedding x) = length q" using assms by blast
    from calculate_score_clip[OF this] e
    show "calculate_score N x (unit_query N (py_slice d q)) d =
          calculate_score N x (unit_query N (py_slice ?d' q)) ?d'" by simp
  qed
  then show ?thesis using e by (simp add: rescore_def df_apply_def)
qed

subsection \<open>Rounds\<close>

lemma fst_funnel_search:
  "fst (funnel_search L N df q scales r) = funnel_loop L N df q scales r"
  by (cases scales) (auto simp: funnel_search_def funnel_round_def split: sum.splits)

lemma length_rerank_prune:
  "argsort_ok (argsort L) \<Longrightarrow> length (rerank_prune L N df r) \<le> length df"
  unfolding rerank_prune_def Let_def
  using length_head[of _ "sort_values L df"] by (simp add: length_sort_values)

lemma length_rerank_prune_eq:
  "argsort_ok (argsort L) \<Longrightarrow> length (rerank_prune L N df r) = pruned_size N r (length df)"
  unfolding rerank_prune_def Let_def head_def pruned_size_def
  by (simp add: length_sort_values length_py_slice_eq)

lemma set_rerank_prune:
  "argsort_ok (argsort L) \<Longrightarrow> set (rerank_prune L N df r) \<subseteq> set df"
  unfolding rerank_prune_def Let_def
  using set_head[of _ "sort_values L df"] by (simp add: set_sort_values)


lemma funnel_round_length:
  "argsort_ok (argsort L) \<Longrightarrow> funnel_round L N df q dims r = Inr df' \<Longrightarrow> length df' \<le> length df"
  by (auto simp: funnel_round_def split: sum.splits
           dest!: rescore_length intro: order_trans[OF length_rerank_prune])

lemma funnel_loop_length:
  "argsort_ok (argsort L) \<Longrightarrow> funnel_loop L N df q scales r = Inr out \<Longrightarrow> length out \<le> length df"
proof (induction scales arbitrary: df)
  case Nil
  then show ?case by simp
next
  case (Cons d ds)
  from Cons.prems(2) obtain df' where
    1: "funnel_round L N df q d r = Inr df'" and 2: "funnel_loop L N df' q ds r = Inr out"
    by (auto split: sum.splits)
  have "length out \<le> length df'" using Cons.IH[OF Cons.prems(1) 2] .
  also have "\<dots> \<le> length df" using funnel_round_length[OF Cons.prems(1) 1] .
  finally show ?case .
qed

lemma funnel_round_size:
  "argsort_ok (argsort L) \<Longrightarrow> funnel_round L N df q dims r = Inr df' \<Longrightarrow>
   length df' = pruned_size N r (length df)"
  by (auto simp: funnel_round_def length_rerank_prune_eq split: sum.splits dest: rescore_length)

lemma funnel_loop_size:
  "argsort_ok (argsort L) \<Longrightarrow> funnel_loop L N df q scales r = Inr out \<Longrightarrow>
   length out = (pruned_size N r ^^ length scales) (length df)"
proof (induction scales arbitrary: df)
  case Nil
  then show ?case by simp
next
  case (Cons d ds)
  from Cons.prems(2) obtain df' where
    1: "funnel_round L N df q d r = Inr df'" and 2: "funnel_loop L N df' q ds r = Inr out"
    by (auto split: sum.splits)
  have "length out = (pruned_size N r ^^ length ds) (length df')"
    using Cons.IH[OF Cons.prems(1) 2] .
  also have "length df' = pruned_size N r (length df)"
    using funnel_round_size[OF Cons.prems(1) 1] .
  finally show ?case by (simp add: funpow_swap1)
qed

lemma py_int_floor: "0 \<le> x \<Longrightarrow> py_int x = \<lfloor>x\<rfloor>"
  by (simp add: py_int_def)

lemma rerank_prune_take:
  assumes "argsort_ok (argsort L)" and "0 \<le> fmul N r (length df)"
  shows "rerank_prune L N df r = take (nat \<lfloor>fmul N r (length df)\<rfloor>) (sort_values L df)"
  using assms
  by (simp add: rerank_prune_def Let_def head_def py_slice_def py_int_floor length_sort_values)

lemma pruned_size_one:
  assumes "mul_ok N" and "0 < r" and "r < 1"
  shows "pruned_size N r 1 = 0"
proof -
  have "fmul N r 1 = r" using assms(1) unfolding mul_ok_def by blast
  moreover have "\<lfloor>r\<rfloor> = 0" using assms(2,3) by (simp add: floor_eq_iff)
  ultimately show ?thesis using assms(2) by (simp add: pruned_size_def py_int_floor)
qed

lemma pruned_size_le: "pruned_size N r n \<le> n"
  by (simp add: pruned_size_def Let_def)

lemma pruned_size_unit:
  assumes "mul_ok N" and "0 \<le> r" and "r \<le> 1" and "n \<le> 2 ^ 53"
  shows "pruned_size N r n = nat (py_int (fmul N r n))"
proof -
  have nn: "0 \<le> fmul N r n" using assms(1,2) unfolding mul_ok_def by blast
  have "fmul N r n \<le> real n" using assms(1,3,4) unfolding mul_ok_def by blast
  then have "\<lfloor>fmul N r n\<rfloor> \<le> int n" by linarith
  then show ?thesis using nn by (simp add: pruned_size_def py_int_def)
qed

lemma pruned_size_unit_pow:
  assumes "mul_ok N" and "0 \<le> r" and "r \<le> 1" and "n \<le> 2 ^ 53"
  shows "(pruned_size N r ^^ k) n \<le> n \<and>
         (pruned_size N r ^^ k) n = ((\<lambda>m. nat (py_int (fmul N r m))) ^^ k) n"
proof (induction k)
  case 0
  then show ?case by simp
next
  case (Suc k)
  let ?m = "(pruned_size N r ^^ k) n"
  have m: "?m \<le> 2 ^ 53" using Suc assms(4) by linarith
  have "pruned_size N r ?m \<le> ?m" by (rule pruned_size_le)
  then have 1: "(pruned_size N r ^^ Suc k) n \<le> n" using Suc by simp
  have "pruned_size N r ?m = nat (py_int (fmul N r ?m))"
    by (rule pruned_size_unit[OF assms(1,2,3) m])
  then have 2: "(pruned_size N r ^^ Suc k) n = ((\<lambda>m. nat (py_int (fmul N r m))) ^^ Suc k) n"
    using Suc by simp
  show ?case using 1 2 by blast
qed

lemma funnel_round_clip:
  assumes "\<forall>x\<in>set df. length (embedding x) = length q"
  shows "funnel_round L N df q d r = funnel_round L N df q (min d (int (length q))) r"
  by (simp add: funnel_round_def rescore_clip[OF assms, of L N d])

lemma funnel_round_preserves_length:
  assumes "argsort_ok (argsort L)" and "\<forall>x\<in>set df. length (embedding x) = n"
    and "funnel_round L N df q d r = Inr df'"
  shows "\<forall>x\<in>set df'. length (embedding x) = n"
proof -
  from assms(3) obtain df1 where 1: "rescore L N df q d = Inr df1" and 2: "df' = rerank_prune L N df1 r"
    by (auto simp: funnel_round_def split: sum.splits)
  have "\<forall>x\<in>set df1. length (embedding x) = n"
    using rescore_preserves_length[OF assms(2) 1] .
  then show ?thesis using set_rerank_prune[OF assms(1), of N df1 r] 2 by blast
qed

lemma funnel_loop_clip:
  assumes "argsort_ok (argsort L)"
  shows "\<forall>x\<in>set df. length (embedding x) = length q \<Longrightarrow>
         funnel_loop L N df q scales r =
         funnel_loop L N df q (map (\<lambda>d. min d (int (length q))) scales) r"
proof (induction scales arbitrary: df)
  case Nil
  then show ?case by simp
next
  case (Cons d ds)
  show ?case
  proof (cases "funnel_round L N df q d r")
    case (Inl e)
    then show ?thesis using funnel_round_clip[OF Cons.prems, of L N d r] by simp
  next
    case (Inr df')
    have "\<forall>x\<in>set df'. length (embedding x) = length q"
      using funnel_round_preserves_length[OF assms Cons.prems Inr] .
    from Cons.IH[OF this] Inr show ?thesis
      using funnel_round_clip[OF Cons.prems, of L N d r] by simp
  qed
qed



lemma funnel_single_Inl:
  assumes "fst (funnel_search L N df q [dims] r) = Inl e"
  shows "(df = [] \<and> apply_empty L = Some e) \<or>
         (e = RuntimeError \<and>
          (\<exists>x\<in>set df. length (py_slice dims (embedding x)) \<noteq> length (py_slice dims q)))"
proof -
  from assms have a: "df_apply L (\<lambda>x. calculate_score N x (unit_query N (py_slice dims q)) dims) df = Inl e"
    by (auto simp: fst_funnel_search funnel_round_def rescore_def split: sum.splits)
  show ?thesis
  proof (cases "df = []")
    case True
    then show ?thesis using a by (auto simp: df_apply_def split: option.splits)
  next
    case False
    then have "collect (\<lambda>x. calculate_score N x (unit_query N (py_slice dims q)) dims) df = Inl e"
      using a by (simp add: df_apply_def)
    from collect_Inl[OF this] obtain x where x: "x \<in> set df"
      and "calculate_score N x (unit_query N (py_slice dims q)) dims = Inl e" by blast
    from calculate_score_Inl[OF this(2)] x show ?thesis by (auto simp: length_unit_query)
  qed
qed

subsection \<open>The functions on the example frames\<close>

lemmas funnel_eval =
  funnel_search_def funnel_round_def rescore_def rerank_prune_def df_apply_def
  calculate_score_def matmul_def F_normalize_def unit_query_def set_scores_def
  sort_values_def score_key_def head_def py_slice_def py_int_def eps_def
  pandas_stable_def stable_argsort_def exact_floats_def
  linalg_norm_1 linalg_norm_x0 ex_norms

lemmas ex_defs = ex_a_def ex_b_def ex_c_def ex_d_def ex_frame_def ex_query_def


lemma ex_round1:
  "funnel_round pandas_stable exact_floats ex_frame ex_query 1 (1/2) =
     Inr [ex_a\<lparr>scores := Some (Fin 1)\<rparr>, ex_b\<lparr>scores := Some (Fin 1)\<rparr>]"
  by (simp add: funnel_eval ex_defs)

lemma ex_search:
  "funnel_search pandas_stable exact_floats ex_frame ex_query [1, 2] (1/2) =
     (Inr [ex_a\<lparr>scores := Some (Fin 1)\<rparr>],
      [ex_c\<lparr>scores := Some (Fin (-1))\<rparr>, ex_a\<lparr>scores := Some (Fin 1)\<rparr>,
       ex_d\<lparr>scores := Some (Fin (-1))\<rparr>, ex_b\<lparr>scores := Some (Fin 1)\<rparr>])"
  by (simp add: funnel_eval ex_defs)

lemma ex_search2:
  "funnel_search pandas_stable exact_floats ex_frame2 [1, 0] [2, 1] (1/2) =
     (Inr [ex_b\<lparr>scores := Some (Fin 1)\<rparr>],
      [ex_b\<lparr>scores := Some (Fin (4/5))\<rparr>, ex_b\<lparr>scores := Some (Fin (4/5))\<rparr>,
       ex_a\<lparr>scores := Some (Fin (3/5))\<rparr>, ex_d\<lparr>scores := Some (Fin (- (4/5)))\<rparr>])"
  by (simp add: funnel_eval ex_defs ex_frame2_def)



lemma ex_round1_rescore:
  "rescore pandas_stable exact_floats ex_frame ex_query 1 =
     Inr [ex_c\<lparr>scores := Some (Fin (-1))\<rparr>, ex_a\<lparr>scores := Some (Fin 1)\<rparr>,
          ex_d\<lparr>scores := Some (Fin (-1))\<rparr>, ex_b\<lparr>scores := Some (Fin 1)\<rparr>]"
  by (simp add: funnel_eval ex_defs)

lemma ex_apply:
  "df_apply pandas_stable
     (\<lambda>x. calculate_score exact_floats x (unit_query exact_floats (py_slice 1 ex_query)) 1)
     ex_frame =
     Inr [Fin (-1), Fin 1, Fin (-1), Fin 1]"
  by (simp add: funnel_eval ex_defs)

lemma ex_apply_fails:
  "df_apply pandas_stable
     (\<lambda>x. calculate_score exact_floats x (unit_query exact_floats (py_slice 2 [1])) 2)
     ex_frame =
     Inl RuntimeError"
  by (simp add: funnel_eval ex_defs)

lemma dot_replicate_zero: "exact_dot (replicate n (Fin 0)) (replicate n (Fin 0)) = Fin 0"
  by (induction n) simp_all

lemma big_scores:
  "calculate_score exact_floats big_a (unit_query exact_floats (py_slice 1000 big_query)) 1000 =
     Inr (Fin 1)"
  "calculate_score exact_floats big_b (unit_query exact_floats (py_slice 1000 big_query)) 1000 =
     Inr (Fin (- 1))"
  by (simp_all add: calculate_score_def matmul_def F_normalize_def unit_query_def py_slice_def
      big_a_def big_b_def big_query_def linalg_norm_one_hot dot_replicate_zero eps_def
      exact_floats_def)

lemma ex_search_beyond:
  "fst (funnel_search pandas_stable exact_floats ex_frame ex_query [5] (1/2)) =
     Inr [ex_a\<lparr>scores := Some (Fin 1)\<rparr>, ex_b\<lparr>scores := Some (Fin (24/25))\<rparr>]"
  by (simp add: funnel_eval ex_defs)

lemma ex_search_mismatch:
  "fst (funnel_search pandas_stable exact_floats ex_frame [1] [2] (1/2)) = Inl RuntimeError"
  by (simp add: funnel_eval ex_defs)


section \<open>The claims\<close>

subsection \<open>Pruning\<close>

text \<open>
  C1 (as the code has it). For a prune ratio in (0,1), a round that returns retains
  exactly the first \<open>int(prune_ratio * current_size)\<close> rows of the re-ranked frame,
  the product being the float64 product that the code computes, and nothing keeps a
  last candidate: where that count is zero the round returns the empty frame. So on
  a single candidate, with at least one scale, a call that returns returns no
  candidate.
\<close>

theorem funnel_round_keeps_floor:
  assumes "argsort_ok (argsort L)" and "mul_ok N" and "0 < r" and "r < 1"
  shows
    "(\<forall>df'. funnel_round L N df q dims r = Inr df' \<longrightarrow>
        (\<exists>df1. rescore L N df q dims = Inr df1 \<and>
               df' = take (nat \<lfloor>fmul N r (length df)\<rfloor>) (sort_values L df1))) \<and>
     (length df = 1 \<and> scales \<noteq> [] \<longrightarrow>
        (\<forall>out. fst (funnel_search L N df q scales r) = Inr out \<longrightarrow> out = []))"
proof (intro conjI allI impI)
  fix df'
  assume a: "funnel_round L N df q dims r = Inr df'"
  then obtain df1 where 1: "rescore L N df q dims = Inr df1"
    and 2: "df' = rerank_prune L N df1 r"
    by (auto simp: funnel_round_def split: sum.splits)
  have l: "length df1 = length df" using 1 by (rule rescore_length)
  have "0 \<le> fmul N r (length df1)" using assms(2,3) unfolding mul_ok_def by simp
  then have "df' = take (nat \<lfloor>fmul N r (length df)\<rfloor>) (sort_values L df1)"
    using 2 l rerank_prune_take[OF assms(1), of N r df1] by simp
  with 1 show "\<exists>df1. rescore L N df q dims = Inr df1 \<and>
               df' = take (nat \<lfloor>fmul N r (length df)\<rfloor>) (sort_values L df1)" by blast
next
  fix out
  assume l: "length df = 1 \<and> scales \<noteq> []"
    and o: "fst (funnel_search L N df q scales r) = Inr out"
  from l obtain d ds where s: "scales = d # ds" by (cases scales) auto
  from o s obtain df' where 1: "funnel_round L N df q d r = Inr df'"
    and 2: "funnel_loop L N df' q ds r = Inr out"
    by (auto simp: fst_funnel_search split: sum.splits)
  have "length df' = pruned_size N r (length df)"
    using funnel_round_size[OF assms(1) 1] .
  also have "\<dots> = 0"
    using l pruned_size_one[OF assms(2,3,4)] by simp
  finally have "length df' = 0" .
  moreover have "length out \<le> length df'" using funnel_loop_length[OF assms(1) 2] .
  ultimately show "out = []" by simp
qed

text \<open>
  On the four example candidates the first round keeps two; on one candidate the
  call returns none.
\<close>

theorem funnel_round_keeps_floor_witness:
  "argsort_ok (argsort pandas_stable) \<and> mul_ok exact_floats \<and>
   (0::real) < 1/2 \<and> (1/2::real) < 1 \<and>
   funnel_round pandas_stable exact_floats ex_frame ex_query 1 (1/2) =
     Inr [ex_a\<lparr>scores := Some (Fin 1)\<rparr>, ex_b\<lparr>scores := Some (Fin 1)\<rparr>] \<and>
   [ex_a\<lparr>scores := Some (Fin 1)\<rparr>, ex_b\<lparr>scores := Some (Fin 1)\<rparr>] =
     take (nat \<lfloor>fmul exact_floats (1/2) (length ex_frame)\<rfloor>)
       (sort_values pandas_stable
          [ex_c\<lparr>scores := Some (Fin (-1))\<rparr>, ex_a\<lparr>scores := Some (Fin 1)\<rparr>,
           ex_d\<lparr>scores := Some (Fin (-1))\<rparr>, ex_b\<lparr>scores := Some (Fin 1)\<rparr>]) \<and>
   (length [ex_a] = 1 \<and> [2::int] \<noteq> []) \<and>
   fst (funnel_search pandas_stable exact_floats [ex_a] ex_query [2] (1/2)) = Inr []"
proof -
  have h1: "(0::real) < 1/2" and h2: "(1/2::real) < 1" by simp_all
  note t = funnel_round_keeps_floor[OF pandas_stable_ok exact_mul_ok h1 h2]
  have a: "funnel_round pandas_stable exact_floats ex_frame ex_query 1 (1/2) =
     Inr [ex_a\<lparr>scores := Some (Fin 1)\<rparr>, ex_b\<lparr>scores := Some (Fin 1)\<rparr>]"
    by (rule ex_round1)
  from t[of ex_frame ex_query 1] a ex_round1_rescore
  have b: "[ex_a\<lparr>scores := Some (Fin 1)\<rparr>, ex_b\<lparr>scores := Some (Fin 1)\<rparr>] =
     take (nat \<lfloor>fmul exact_floats (1/2) (length ex_frame)\<rfloor>)
       (sort_values pandas_stable
          [ex_c\<lparr>scores := Some (Fin (-1))\<rparr>, ex_a\<lparr>scores := Some (Fin 1)\<rparr>,
           ex_d\<lparr>scores := Some (Fin (-1))\<rparr>, ex_b\<lparr>scores := Some (Fin 1)\<rparr>])"
    by auto
  have c: "length [ex_a] = 1 \<and> [2::int] \<noteq> []" by simp
  have d: "fst (funnel_search pandas_stable exact_floats [ex_a] ex_query [2] (1/2)) = Inr []"
    by (simp add: funnel_eval ex_defs)
  from t[of "[ex_a]" ex_query 2 "[2]"] c d
  have e: "fst (funnel_search pandas_stable exact_floats [ex_a] ex_query [2] (1/2)) = Inr []"
    by blast
  show ?thesis using pandas_stable_ok exact_mul_ok h1 h2 a b c e by simp
qed

text \<open>
  The claim as the specification states it, that at least one candidate is always
  retained, fails: one candidate, one scale, prune ratio 0.5 give \<open>int(0.5 * 1) = 0\<close>
  and \<open>head(0)\<close>.
\<close>

theorem single_candidate_pruned_to_empty:
  "fst (funnel_search pandas_stable exact_floats [ex_a] ex_query [2] (1/2)) = Inr []"
  by (simp add: funnel_eval ex_defs)

subsection \<open>The caller's frame\<close>

text \<open>
  C2 (as the code has it). \<open>funnel_search\<close> leaves the titles, the embeddings and the
  order of the rows of the caller's frame as they were, but it is not pure: with at
  least one scale, when the first scoring raises nothing, the caller's frame has its
  \<open>scores\<close> column set to the scores of the first round. With no scale, or when the
  first scoring raises, the caller's frame is unchanged.
\<close>

theorem funnel_search_caller_frame:
  "map title (snd (funnel_search L N df q scales r)) = map title df \<and>
   map embedding (snd (funnel_search L N df q scales r)) = map embedding df \<and>
   snd (funnel_search L N df q [] r) = df \<and>
   (\<forall>ss. df_apply L (\<lambda>x. calculate_score N x (unit_query N (py_slice dims q)) dims) df = Inr ss \<longrightarrow>
      map scores (snd (funnel_search L N df q (dims # rest) r)) = map Some ss) \<and>
   (\<forall>e. df_apply L (\<lambda>x. calculate_score N x (unit_query N (py_slice dims q)) dims) df = Inl e \<longrightarrow>
      snd (funnel_search L N df q (dims # rest) r) = df)"
proof (intro conjI allI impI)
  show "map title (snd (funnel_search L N df q scales r)) = map title df"
    by (cases scales) (auto simp: funnel_search_def rescore_title split: sum.splits)
  show "map embedding (snd (funnel_search L N df q scales r)) = map embedding df"
    by (cases scales) (auto simp: funnel_search_def rescore_embedding split: sum.splits)
  show "snd (funnel_search L N df q [] r) = df"
    by (simp add: funnel_search_def)
next
  fix ss
  assume "df_apply L (\<lambda>x. calculate_score N x (unit_query N (py_slice dims q)) dims) df = Inr ss"
  from rescore_scores[OF this]
  show "map scores (snd (funnel_search L N df q (dims # rest) r)) = map Some ss"
    by (simp add: funnel_search_def)
next
  fix e
  assume "df_apply L (\<lambda>x. calculate_score N x (unit_query N (py_slice dims q)) dims) df = Inl e"
  then show "snd (funnel_search L N df q (dims # rest) r) = df"
    by (simp add: funnel_search_def rescore_def)
qed

theorem funnel_search_caller_frame_witness:
  "map title (snd (funnel_search pandas_stable exact_floats ex_frame ex_query [1, 2] (1/2))) = map title ex_frame \<and>
   map embedding (snd (funnel_search pandas_stable exact_floats ex_frame ex_query [1, 2] (1/2))) =
     map embedding ex_frame \<and>
   snd (funnel_search pandas_stable exact_floats ex_frame ex_query [] (1/2)) = ex_frame \<and>
   df_apply pandas_stable (\<lambda>x. calculate_score exact_floats x (unit_query exact_floats (py_slice 1 ex_query)) 1) ex_frame =
     Inr [Fin (-1), Fin 1, Fin (-1), Fin 1] \<and>
   map scores (snd (funnel_search pandas_stable exact_floats ex_frame ex_query [1, 2] (1/2))) =
     map Some [Fin (-1), Fin 1, Fin (-1), Fin 1] \<and>
   df_apply pandas_stable (\<lambda>x. calculate_score exact_floats x (unit_query exact_floats (py_slice 2 [1])) 2) ex_frame =
     Inl RuntimeError \<and>
   snd (funnel_search pandas_stable exact_floats ex_frame [1] [2, 1] (1/2)) = ex_frame"
  using funnel_search_caller_frame[of pandas_stable exact_floats ex_frame ex_query "[1, 2]" "1/2" 1 "[2]"]
    funnel_search_caller_frame[of pandas_stable exact_floats ex_frame "[1]" "[2, 1]" "1/2" 2 "[1]"]
    ex_apply ex_apply_fails
  by blast

text \<open>
  The claim as the specification states it, that the score field the caller sees is
  the same after the call, fails: the frame had no scores, and has the scores of the
  first round afterwards.
\<close>

theorem funnel_search_writes_scores:
  "map scores ex_frame = [None, None, None, None] \<and>
   map scores (snd (funnel_search pandas_stable exact_floats ex_frame ex_query [1, 2] (1/2))) =
     [Some (Fin (-1)), Some (Fin 1), Some (Fin (-1)), Some (Fin 1)]"
  by (simp add: ex_search) (simp add: funnel_eval ex_defs)

subsection \<open>Errors\<close>

text \<open>
  C3 (as the code has it). An embedding shorter than a scale is not rejected: the
  slices \<^verbatim>\<open>[:dims]\<close> stop at the end of the vector. When the query and every candidate
  have the same length \<open>D\<close>, \<open>funnel_search\<close> does with the scales what it does with
  each scale \<open>d\<close> replaced by \<open>min(d, D)\<close>, and a single round on a frame with rows
  returns a result. A single round raises only when the frame has no rows (what
  pandas raises then), or torch's \<open>RuntimeError\<close>, and then some candidate's slice
  and the slice of the query differ in length.
\<close>

theorem scale_beyond_length_is_clipped:
  assumes "argsort_ok (argsort L)"
  shows "((\<forall>x\<in>set df. length (embedding x) = length q) \<longrightarrow>
            fst (funnel_search L N df q scales r) =
              fst (funnel_search L N df q (map (\<lambda>d. min d (int (length q))) scales) r) \<and>
            (df \<noteq> [] \<longrightarrow> (\<exists>out. fst (funnel_search L N df q [dims] r) = Inr out))) \<and>
         (\<forall>e. fst (funnel_search L N df q [dims] r) = Inl e \<longrightarrow>
            (df = [] \<and> apply_empty L = Some e) \<or>
            (e = RuntimeError \<and>
             (\<exists>x\<in>set df. length (py_slice dims (embedding x)) \<noteq> length (py_slice dims q))))"
proof (intro conjI impI allI)
  assume a: "\<forall>x\<in>set df. length (embedding x) = length q"
  show "fst (funnel_search L N df q scales r) =
           fst (funnel_search L N df q (map (\<lambda>d. min d (int (length q))) scales) r)"
    using funnel_loop_clip[OF assms a, of N scales r] by (simp add: fst_funnel_search)
  show "\<exists>out. fst (funnel_search L N df q [dims] r) = Inr out" if "df \<noteq> []"
    using rescore_total[OF a that, of L N dims]
    by (auto simp: fst_funnel_search funnel_round_def)
next
  fix e assume "fst (funnel_search L N df q [dims] r) = Inl e"
  then show "(df = [] \<and> apply_empty L = Some e) \<or>
            (e = RuntimeError \<and>
             (\<exists>x\<in>set df. length (py_slice dims (embedding x)) \<noteq> length (py_slice dims q)))"
    by (rule funnel_single_Inl)
qed

text \<open>
  On the example frame, whose embeddings have length 2: the scales 5 and 7 act as the
  scale 2, and a query of length 1 gives the \<open>RuntimeError\<close>.
\<close>

theorem scale_beyond_length_is_clipped_witness:
  "argsort_ok (argsort pandas_stable) \<and>
   (length (embedding ex_c) = length ex_query \<and> length (embedding ex_a) = length ex_query \<and>
    length (embedding ex_d) = length ex_query \<and> length (embedding ex_b) = length ex_query) \<and>
   fst (funnel_search pandas_stable exact_floats ex_frame ex_query [5, 7] (1/2)) =
     fst (funnel_search pandas_stable exact_floats ex_frame ex_query
            (map (\<lambda>d. min d (int (length ex_query))) [5, 7]) (1/2)) \<and>
   ex_frame \<noteq> [] \<and>
   fst (funnel_search pandas_stable exact_floats ex_frame ex_query [5] (1/2)) =
     Inr [ex_a\<lparr>scores := Some (Fin 1)\<rparr>, ex_b\<lparr>scores := Some (Fin (24/25))\<rparr>] \<and>
   fst (funnel_search pandas_stable exact_floats ex_frame [1] [2] (1/2)) = Inl RuntimeError \<and>
   length (py_slice 2 (embedding ex_c)) \<noteq> length (py_slice 2 [1::real])"
proof -
  have 1: "\<forall>x\<in>set ex_frame. length (embedding x) = length ex_query"
    by (simp add: funnel_eval ex_defs)
  have 2: "length (embedding ex_c) = length ex_query \<and> length (embedding ex_a) = length ex_query \<and>
    length (embedding ex_d) = length ex_query \<and> length (embedding ex_b) = length ex_query"
    by (simp add: funnel_eval ex_defs)
  have 3: "ex_frame \<noteq> []" by (simp add: ex_frame_def)
  have 4: "length (py_slice 2 (embedding ex_c)) \<noteq> length (py_slice 2 [1::real])"
    by (simp add: funnel_eval ex_defs)
  note t = scale_beyond_length_is_clipped[OF pandas_stable_ok, of ex_frame ex_query exact_floats "[5, 7]" "1/2" 5]
  note u = scale_beyond_length_is_clipped[OF pandas_stable_ok, of ex_frame "[1]" exact_floats "[2]" "1/2" 2]
  show ?thesis using pandas_stable_ok 1 2 3 4 t u ex_search_beyond ex_search_mismatch by blast
qed

text \<open>
  The claim as the specification states it, that a scale above the length of the
  embeddings is rejected with a \<open>DimensionMismatchError\<close>, fails: with
  \<open>scales = [1000]\<close> on embeddings of length 768 the call returns the better of the two
  candidates, scored on all 768 components.
\<close>

theorem scale_1000_on_768_returns:
  "length (embedding big_a) = 768 \<and> length (embedding big_b) = 768 \<and> length big_query = 768 \<and>
   fst (funnel_search pandas_stable exact_floats [big_b, big_a] big_query [1000] (1/2)) =
     Inr [big_a\<lparr>scores := Some (Fin 1)\<rparr>]"
proof -
  have "rescore pandas_stable exact_floats [big_b, big_a] big_query 1000 =
          Inr [big_b\<lparr>scores := Some (Fin (- 1))\<rparr>, big_a\<lparr>scores := Some (Fin 1)\<rparr>]"
    by (simp add: rescore_def df_apply_def big_scores set_scores_def)
  then have "fst (funnel_search pandas_stable exact_floats [big_b, big_a] big_query [1000] (1/2)) =
     Inr [big_a\<lparr>scores := Some (Fin 1)\<rparr>]"
    by (simp add: funnel_search_def rerank_prune_def sort_values_def score_key_def head_def
        py_slice_def py_int_def pandas_stable_def stable_argsort_def exact_floats_def)
  then show ?thesis by (simp add: big_a_def big_b_def big_query_def)
qed

text \<open>
  C4 (as the code has it). A zero prefix never makes the normalization fail. For a
  query prefix that is the zero vector, with at least one component, the score of
  every candidate of matching length is \<open>nan\<close>; for a candidate prefix that is the
  zero vector the score is \<open>0.0\<close> whenever the normalized query prefix holds finite
  numbers only. The only exception of \<open>calculate_score\<close> is the \<open>RuntimeError\<close> for
  slices of different lengths.
\<close>

theorem zero_norm_gives_score:
  assumes "scores_ok N"
  shows
  "((\<forall>x\<in>set (py_slice dims q). x = 0) \<and> py_slice dims q \<noteq> [] \<and>
    length (py_slice dims (embedding r)) = length (py_slice dims q) \<longrightarrow>
      calculate_score N r (unit_query N (py_slice dims q)) dims = Inr NaN) \<and>
   ((\<forall>x\<in>set (py_slice dims (embedding r)). x = 0) \<and>
    list_all is_fin (unit_query N (py_slice dims q)) \<and>
    length (py_slice dims (embedding r)) = length (py_slice dims q) \<longrightarrow>
      calculate_score N r (unit_query N (py_slice dims q)) dims = Inr (Fin 0)) \<and>
   (\<forall>e. calculate_score N r (unit_query N (py_slice dims q)) dims = Inl e \<longrightarrow>
      e = RuntimeError \<and> length (py_slice dims (embedding r)) \<noteq> length (py_slice dims q))"
proof (intro conjI allI impI)
  assume a: "(\<forall>x\<in>set (py_slice dims q). x = 0) \<and> py_slice dims q \<noteq> [] \<and>
    length (py_slice dims (embedding r)) = length (py_slice dims q)"
  then have u: "unit_query N (py_slice dims q) = map (\<lambda>x. NaN) (py_slice dims q)"
    using unit_query_zeros[OF assms] by blast
  have n: "NaN \<in> set (map (\<lambda>x. NaN) (py_slice dims q))" using a by (cases "py_slice dims q") auto
  have "fdot N (F_normalize N (py_slice dims (embedding r))) (map (\<lambda>x. NaN) (py_slice dims q)) = NaN"
    using a by (intro fdot_nan[OF assms _ n]) (simp add: length_F_normalize)
  then show "calculate_score N r (unit_query N (py_slice dims q)) dims = Inr NaN"
    using a by (simp add: calculate_score_def matmul_def u length_F_normalize)
next
  assume a: "(\<forall>x\<in>set (py_slice dims (embedding r)). x = 0) \<and>
    list_all is_fin (unit_query N (py_slice dims q)) \<and>
    length (py_slice dims (embedding r)) = length (py_slice dims q)"
  then have z: "\<forall>x\<in>set (py_slice dims (embedding r)). x = 0" by blast
  show "calculate_score N r (unit_query N (py_slice dims q)) dims = Inr (Fin 0)"
    using a by (simp add: calculate_score_zero[OF assms z] length_unit_query)
next
  fix e
  assume "calculate_score N r (unit_query N (py_slice dims q)) dims = Inl e"
  from calculate_score_Inl[OF this]
  show "e = RuntimeError" and "length (py_slice dims (embedding r)) \<noteq> length (py_slice dims q)"
    by (simp_all add: length_unit_query)
qed

theorem zero_norm_gives_score_witness:
  "scores_ok exact_floats \<and>
   (py_slice 2 [0, 0 :: real] = [0, 0] \<and> py_slice 2 [0, 0 :: real] \<noteq> [] \<and>
    length (py_slice 2 (embedding ex_a)) = length (py_slice 2 [0, 0 :: real])) \<and>
   calculate_score exact_floats ex_a (unit_query exact_floats (py_slice 2 [0, 0])) 2 = Inr NaN \<and>
   (py_slice 2 (embedding ex_zero) = [0, 0] \<and>
    list_all is_fin (unit_query exact_floats (py_slice 2 ex_query)) \<and>
    length (py_slice 2 (embedding ex_zero)) = length (py_slice 2 ex_query)) \<and>
   calculate_score exact_floats ex_zero (unit_query exact_floats (py_slice 2 ex_query)) 2 =
     Inr (Fin 0) \<and>
   calculate_score exact_floats ex_a (unit_query exact_floats (py_slice 1 ex_query)) 2 =
     Inl RuntimeError \<and>
   length (py_slice 2 (embedding ex_a)) \<noteq> length (py_slice 1 ex_query)"
proof -
  have 1: "py_slice 2 [0, 0 :: real] = [0, 0] \<and> py_slice 2 [0, 0 :: real] \<noteq> [] \<and>
    length (py_slice 2 (embedding ex_a)) = length (py_slice 2 [0, 0 :: real])"
    by (simp add: py_slice_def ex_a_def)
  then have z1: "(\<forall>x\<in>set (py_slice 2 [0, 0 :: real]). x = 0) \<and> py_slice 2 [0, 0 :: real] \<noteq> [] \<and>
    length (py_slice 2 (embedding ex_a)) = length (py_slice 2 [0, 0 :: real])"
    by simp
  have 2: "py_slice 2 (embedding ex_zero) = [0, 0] \<and>
    list_all is_fin (unit_query exact_floats (py_slice 2 ex_query)) \<and>
    length (py_slice 2 (embedding ex_zero)) = length (py_slice 2 ex_query)"
    by (simp add: funnel_eval ex_defs ex_zero_def)
  then have z2: "(\<forall>x\<in>set (py_slice 2 (embedding ex_zero)). x = 0) \<and>
    list_all is_fin (unit_query exact_floats (py_slice 2 ex_query)) \<and>
    length (py_slice 2 (embedding ex_zero)) = length (py_slice 2 ex_query)"
    by (simp add: py_slice_def ex_query_def)
  have 3: "calculate_score exact_floats ex_a (unit_query exact_floats (py_slice 1 ex_query)) 2 =
     Inl RuntimeError"
    by (simp add: funnel_eval ex_defs)
  have 4: "length (py_slice 2 (embedding ex_a)) \<noteq> length (py_slice 1 ex_query)"
    by (simp add: funnel_eval ex_defs)
  show ?thesis
    using zero_norm_gives_score[OF exact_scores_ok, of 2 "[0, 0]" ex_a]
      zero_norm_gives_score[OF exact_scores_ok, of 2 ex_query ex_zero]
      exact_scores_ok 1 z1 2 z2 3 4 by blast
qed

text \<open>
  The claim as the specification states it, that a prefix of norm zero makes the
  normalization fail with a \<open>DegenerateVectorError\<close>, fails on both sides: the
  candidate with a zero prefix gets the score \<open>0.0\<close>, and with the zero query the
  call returns candidates whose score is \<open>nan\<close>.
\<close>

theorem zero_norm_no_error:
  "calculate_score exact_floats ex_zero (unit_query exact_floats (py_slice 2 ex_query)) 2 =
     Inr (Fin 0) \<and>
   fst (funnel_search pandas_stable exact_floats ex_frame [0, 0] [2] (1/2)) =
     Inr [ex_c\<lparr>scores := Some NaN\<rparr>, ex_a\<lparr>scores := Some NaN\<rparr>]"
  by (simp add: funnel_eval ex_defs ex_zero_def)

subsection \<open>The ranking returned\<close>







subsection \<open>Sizes\<close>

text \<open>
  C8. The candidate set never grows: a round that returns gives a frame with at most
  as many rows as it was given, and a call of \<open>funnel_search\<close> that returns gives at
  most as many rows as the caller's frame has. This holds for every prune ratio and
  every sort that meets its contract.
\<close>

theorem funnel_search_length_le:
  assumes "argsort_ok (argsort L)"
  shows "(\<forall>df'. funnel_round L N df q dims r = Inr df' \<longrightarrow> length df' \<le> length df) \<and>
         (\<forall>out. fst (funnel_search L N df q scales r) = Inr out \<longrightarrow> length out \<le> length df)"
  using assms by (auto simp: fst_funnel_search dest: funnel_round_length funnel_loop_length)

theorem funnel_search_length_le_witness:
  "argsort_ok (argsort pandas_stable) \<and>
   funnel_round pandas_stable exact_floats ex_frame ex_query 1 (1/2) =
     Inr [ex_a\<lparr>scores := Some (Fin 1)\<rparr>, ex_b\<lparr>scores := Some (Fin 1)\<rparr>] \<and>
   length [ex_a\<lparr>scores := Some (Fin 1)\<rparr>, ex_b\<lparr>scores := Some (Fin 1)\<rparr>] \<le> length ex_frame \<and>
   fst (funnel_search pandas_stable exact_floats ex_frame ex_query [1, 2] (1/2)) =
     Inr [ex_a\<lparr>scores := Some (Fin 1)\<rparr>] \<and>
   length [ex_a\<lparr>scores := Some (Fin 1)\<rparr>] \<le> length ex_frame"
  using funnel_search_length_le[OF pandas_stable_ok, of exact_floats ex_frame ex_query 1 "1/2" "[1, 2]"]
  by (simp add: pandas_stable_ok ex_round1 ex_search)

text \<open>
  C9 (as the code has it). The length of the result does not depend on the embeddings
  or the query: two calls on frames of the same length, with as many scales and the
  same prune ratio, that both return, return frames of the same length. That length is
  the size of \<^verbatim>\<open>df.head(int(prune_ratio * size))\<close> iterated once for each scale, the
  product being the float64 product of the code; for a prune ratio from 0 to 1, on a
  frame of at most \<open>2^53\<close> rows, it is the iteration of
  \<open>size \<mapsto> int(prune_ratio * size)\<close>.
\<close>

theorem funnel_search_length_independent:
  assumes "argsort_ok (argsort L)"
    and "fst (funnel_search L N df1 q1 scales1 r) = Inr out1"
    and "fst (funnel_search L N df2 q2 scales2 r) = Inr out2"
    and "length df1 = length df2" and "length scales1 = length scales2"
  shows "length out1 = length out2 \<and>
         length out1 = (pruned_size N r ^^ length scales1) (length df1) \<and>
         (mul_ok N \<and> 0 \<le> r \<and> r \<le> 1 \<and> length df1 \<le> 2 ^ 53 \<longrightarrow>
            length out1 =
              ((\<lambda>n. nat (py_int (fmul N r n))) ^^ length scales1) (length df1))"
proof -
  have 1: "length out1 = (pruned_size N r ^^ length scales1) (length df1)"
    using assms(1,2) by (simp add: fst_funnel_search funnel_loop_size)
  have 2: "length out2 = (pruned_size N r ^^ length scales2) (length df2)"
    using assms(1,3) by (simp add: fst_funnel_search funnel_loop_size)
  have 3: "length out1 = ((\<lambda>n. nat (py_int (fmul N r n))) ^^ length scales1) (length df1)"
    if "mul_ok N \<and> 0 \<le> r \<and> r \<le> 1 \<and> length df1 \<le> 2 ^ 53"
    using 1 pruned_size_unit_pow[of N r "length df1" "length scales1"] that by simp
  show ?thesis using 1 2 3 assms(4,5) by simp
qed

theorem funnel_search_length_independent_witness:
  "argsort_ok (argsort pandas_stable) \<and>
   fst (funnel_search pandas_stable exact_floats ex_frame ex_query [1, 2] (1/2)) =
     Inr [ex_a\<lparr>scores := Some (Fin 1)\<rparr>] \<and>
   fst (funnel_search pandas_stable exact_floats ex_frame2 [1, 0] [2, 1] (1/2)) =
     Inr [ex_b\<lparr>scores := Some (Fin 1)\<rparr>] \<and>
   length ex_frame = length ex_frame2 \<and> length [1, 2 :: int] = length [2, 1 :: int] \<and>
   (mul_ok exact_floats \<and> (0::real) \<le> 1/2 \<and> (1/2::real) \<le> 1 \<and> length ex_frame \<le> 2 ^ 53) \<and>
   length [ex_a\<lparr>scores := Some (Fin 1)\<rparr>] = length [ex_b\<lparr>scores := Some (Fin 1)\<rparr>] \<and>
   length [ex_a\<lparr>scores := Some (Fin 1)\<rparr>] =
     (pruned_size exact_floats (1/2) ^^ length [1, 2 :: int]) (length ex_frame) \<and>
   length [ex_a\<lparr>scores := Some (Fin 1)\<rparr>] =
     ((\<lambda>n. nat (py_int (fmul exact_floats (1/2) n))) ^^ length [1, 2 :: int]) (length ex_frame)"
proof -
  have 1: "fst (funnel_search pandas_stable exact_floats ex_frame ex_query [1, 2] (1/2)) =
     Inr [ex_a\<lparr>scores := Some (Fin 1)\<rparr>]" by (simp add: ex_search)
  have 2: "fst (funnel_search pandas_stable exact_floats ex_frame2 [1, 0] [2, 1] (1/2)) =
     Inr [ex_b\<lparr>scores := Some (Fin 1)\<rparr>]" by (simp add: ex_search2)
  have 3: "length ex_frame = length ex_frame2" by (simp add: ex_frame_def ex_frame2_def)
  have 4: "length [1, 2 :: int] = length [2, 1 :: int]" by simp
  have 5: "mul_ok exact_floats \<and> (0::real) \<le> 1/2 \<and> (1/2::real) \<le> 1 \<and> length ex_frame \<le> 2 ^ 53"
    by (simp add: exact_mul_ok ex_frame_def)
  note t = funnel_search_length_independent[OF pandas_stable_ok 1 2 3 4]
  show ?thesis using pandas_stable_ok 1 2 3 4 5 t by blast
qed

text \<open>
  The closed form of the claim, \<open>size \<mapsto> int(prune_ratio * size)\<close> for every prune
  ratio, fails above 1, where \<open>head\<close> has no more rows to give: one candidate, one
  scale, prune ratio 2 return one row, and \<open>int(2 * 1) = 2\<close>.
\<close>

theorem prune_ratio_above_one_length:
  "fst (funnel_search pandas_stable exact_floats [ex_a] ex_query [2] 2) =
     Inr [ex_a\<lparr>scores := Some (Fin 1)\<rparr>] \<and>
   ((\<lambda>n. nat (py_int (fmul exact_floats 2 n))) ^^ length [2 :: int]) (length [ex_a]) = 2"
  by (simp add: funnel_eval ex_defs)

subsection \<open>Zero prefixes\<close>

text \<open>
  C10 (as the code has it). For a candidate whose first \<open>dims\<close> components are all
  zero, \<open>F.normalize\<close> divides by \<open>eps\<close>, not by zero, and returns the zero vector.
  \<open>calculate_score\<close> then returns \<open>0.0\<close> when the query vector has the length of the
  prefix and holds finite numbers only; it is not total: it raises \<open>RuntimeError\<close>
  when the query vector has another length, and it returns \<open>nan\<close> when the query
  vector of that length holds a \<open>nan\<close> or an infinity.
\<close>

theorem calculate_score_zero_prefix:
  assumes "scores_ok N" and "\<forall>x\<in>set (py_slice dims (embedding r)). x = 0"
  shows "F_normalize N (py_slice dims (embedding r)) =
           map (\<lambda>x. Fin 0) (py_slice dims (embedding r)) \<and>
         calculate_score N r query_emb dims =
           (if length query_emb \<noteq> length (py_slice dims (embedding r)) then Inl RuntimeError
            else if list_all is_fin query_emb then Inr (Fin 0)
            else Inr NaN)"
  using F_normalize_zeros[OF assms] calculate_score_zero[OF assms] by blast

theorem calculate_score_zero_prefix_witness:
  "scores_ok exact_floats \<and> py_slice 2 (embedding ex_zero) = [0, 0] \<and>
   F_normalize exact_floats (py_slice 2 (embedding ex_zero)) =
     map (\<lambda>x. Fin 0) (py_slice 2 (embedding ex_zero)) \<and>
   length [Fin (3/5), Fin (4/5)] = length (py_slice 2 (embedding ex_zero)) \<and>
   list_all is_fin [Fin (3/5), Fin (4/5)] \<and>
   calculate_score exact_floats ex_zero [Fin (3/5), Fin (4/5)] 2 = Inr (Fin 0)"
proof -
  have 0: "py_slice 2 (embedding ex_zero) = [0, 0]"
    by (simp add: py_slice_def ex_zero_def)
  have 1: "\<forall>x\<in>set (py_slice 2 (embedding ex_zero)). x = 0"
    by (simp add: 0)
  have 2: "length [Fin (3/5), Fin (4/5)] = length (py_slice 2 (embedding ex_zero))"
    by (simp add: 0)
  have 3: "list_all is_fin [Fin (3/5), Fin (4/5)]" by simp
  from calculate_score_zero_prefix[OF exact_scores_ok 1, of "[Fin (3/5), Fin (4/5)]"] 2 3
  have 4: "F_normalize exact_floats (py_slice 2 (embedding ex_zero)) =
       map (\<lambda>x. Fin 0) (py_slice 2 (embedding ex_zero)) \<and>
     calculate_score exact_floats ex_zero [Fin (3/5), Fin (4/5)] 2 = Inr (Fin 0)"
    by simp
  show ?thesis using exact_scores_ok 0 2 3 4 by blast
qed

text \<open>
  The claim as stated, that \<open>calculate_score\<close> is total and returns \<open>0.0\<close> for every
  candidate with a zero prefix, fails: in a round whose query prefix is zero as well
  the score of the candidate is \<open>nan\<close>, and with a query shorter than the prefix the
  call raises.
\<close>

theorem zero_prefix_nan_or_error:
  "py_slice 2 (embedding ex_zero) = [0, 0] \<and>
   calculate_score exact_floats ex_zero (unit_query exact_floats (py_slice 2 [0, 0, 7])) 2 =
     Inr NaN \<and>
   calculate_score exact_floats ex_zero (unit_query exact_floats (py_slice 2 [1])) 2 =
     Inl RuntimeError"
  by (simp add: funnel_eval ex_zero_def)

end
